theory Spec2Isabelle
  imports Main "HOL-Library.Sublist"
begin

section \<open>The cleanup engine of tasks/clean.py\<close>

text \<open>
  The module removes files and directories selected by glob patterns, protects the
  Python installation it runs in, and lets other task modules register cleanup tasks.
  Everything the module does beyond computing values is an effect on the outside world:
  it prints lines, expands patterns against the file system, removes trees and files, and
  runs an external command. The embedding makes these effects explicit. A procedure takes
  the file system and returns the file system it leaves, the events it caused in order, and
  the exception it raised, if any.
\<close>

subsection \<open>Effects, exceptions and the operating-system interface\<close>

text \<open>
  An \<open>OSError\<close> is kept by what the source reads of it: \<open>e.__class__.__name__\<close> and
  \<open>str(e)\<close>.
\<close>

datatype os_error = OS_Error (class_name: string) (error_text: string)

datatype exn = OSError os_error | CleanupError string | Exception string

text \<open>
  The events of a run: a line printed on stdout, a call of \<open>Path.rmtree_p\<close> or
  \<open>Path.remove_p\<close> on a path together with the \<open>OSError\<close> the call raised (if any),
  and a command handed to \<open>ctx.run\<close>.
\<close>

datatype event =
    Print string
  | Rmtree string "os_error option"
  | Remove string "os_error option"
  | Run string

text \<open>
  \<open>path_glob\<close> is a Python generator: the \<open>for\<close> loop resumes it after every
  iteration of the loop body, so what it yields next may depend on what the body has
  removed in the meantime. A generator is therefore a finite tree: it stops, or it yields a
  path and continues as a function of the file system found when it is resumed.
\<close>

datatype 'fs gen = Stop | Yield string "'fs \<Rightarrow> 'fs gen"

primrec gen_of_list :: "string list \<Rightarrow> 'fs gen" where
  "gen_of_list [] = Stop"
| "gen_of_list (p # ps) = Yield p (\<lambda>_. gen_of_list ps)"

text \<open>
  The library calls of the module, as functions over an arbitrary type \<open>'fs\<close> of file
  system states: \<open>sys.executable\<close>, \<open>pathlib.Path.cwd()\<close>, the string functions
  \<open>abspath\<close>, \<open>dirname\<close> and \<open>joinpath\<close> of \<open>path.Path\<close>,
  \<open>pathlib.Path(current_dir).glob(pattern)\<close>, \<open>Path.rmtree_p\<close>, \<open>Path.remove_p\<close>
  (both leave a file system behind and may raise an \<open>OSError\<close>) and \<open>ctx.run\<close>.
\<close>

record 'fs os =
  sys_executable :: string
  cwd :: string
  abspath :: "string \<Rightarrow> string"
  dirname :: "string \<Rightarrow> string"
  joinpath :: "string \<Rightarrow> string \<Rightarrow> string"
  glob :: "string \<Rightarrow> string \<Rightarrow> 'fs \<Rightarrow> 'fs gen"
  rmtree_p :: "string \<Rightarrow> 'fs \<Rightarrow> 'fs \<times> os_error option"
  remove_p :: "string \<Rightarrow> 'fs \<Rightarrow> 'fs \<times> os_error option"
  run :: "string \<Rightarrow> 'fs \<Rightarrow> 'fs \<times> exn option"

text \<open>
  The result of a procedure over a state \<open>'s\<close>: the state it leaves, the events it
  caused, and the exception that ended it. \<open>then_do\<close> is sequencing of statements: the
  second statement runs only when the first did not raise.
\<close>

type_synonym 's res = "'s \<times> event list \<times> exn option"

definition then_do :: "'s res \<Rightarrow> ('s \<Rightarrow> 's res) \<Rightarrow> 's res" where
  "then_do r f =
     (case r of
        (s, ev, Some e) \<Rightarrow> (s, ev, Some e)
      | (s, ev, None) \<Rightarrow> (case f s of (s', ev', r') \<Rightarrow> (s', ev @ ev', r')))"

subsection \<open>path_glob\<close>

text \<open>
  \<open>if not current_dir: current_dir = pathlib.Path.cwd()\<close>; any other value is turned
  into a \<open>pathlib.Path\<close>, and every result back into a \<open>path.Path\<close>. Paths are
  strings throughout, so both conversions are the identity. \<open>glob\<close> is the field of the
  operating-system interface: it returns a generator for every pattern. A pattern
  that \<open>pathlib\<close> refuses with an exception (an empty or an absolute one) has no
  counterpart here, so nothing below says that \<open>path_glob\<close> does not raise.
\<close>

definition path_glob :: "'fs os \<Rightarrow> string \<Rightarrow> string \<Rightarrow> 'fs \<Rightarrow> 'fs gen" where
  "path_glob os pattern current_dir =
     glob os (if current_dir = [] then cwd os else current_dir) pattern"

subsection \<open>cleanup_dirs\<close>

text \<open>
  \<open>python_basedir = Path(Path(sys.executable).dirname()).joinpath("..").abspath()\<close>
\<close>

definition python_basedir :: "'fs os \<Rightarrow> string" where
  "python_basedir os = abspath os (joinpath os (dirname os (sys_executable os)) ''..'')"

text \<open>
  The body of the inner loop of \<open>cleanup_dirs\<close> for one \<open>directory\<close>. Its state is the
  file system and \<open>warn2_counter\<close>. \<open>str.startswith\<close> is \<^const>\<open>prefix\<close>.
\<close>

definition cleanup_dirs_body ::
    "'fs os \<Rightarrow> bool \<Rightarrow> string \<Rightarrow> 'fs \<times> nat \<Rightarrow> ('fs \<times> nat) res" where
  "cleanup_dirs_body os dry_run directory st =
     (case st of (fs, warn2_counter) \<Rightarrow>
        let directory2 = abspath os directory in
        if prefix directory2 (sys_executable os) then
          ((fs, warn2_counter),
           [Print (''SKIP-SUICIDE: '' @ [CHR 0x27] @ directory @ [CHR 0x27]
                     @ '' contains current python executable'')],
           None)
        else if prefix (python_basedir os) directory2 then
          ((fs, warn2_counter + 1),
           (if warn2_counter \<le> 4
            then [Print (''SKIP-SUICIDE: '' @ [CHR 0x27] @ directory @ [CHR 0x27])]
            else []),
           None)
        else if dry_run then
          ((fs, warn2_counter), [Print (''RMTREE: '' @ directory @ '' (dry-run)'')], None)
        else
          (case rmtree_p os directory fs of
             (fs', r) \<Rightarrow>
               ((fs', warn2_counter),
                [Print (''RMTREE: '' @ directory), Rmtree directory r],
                map_option OSError r)))"

text \<open>\<open>for directory in path_glob(dir_pattern, current_dir): ...\<close>\<close>

primrec cleanup_dirs_inner ::
    "'fs os \<Rightarrow> bool \<Rightarrow> 'fs gen \<Rightarrow> 'fs \<times> nat \<Rightarrow> ('fs \<times> nat) res" where
  "cleanup_dirs_inner os dry_run Stop st = (st, [], None)"
| "cleanup_dirs_inner os dry_run (Yield directory resume) st =
     then_do (cleanup_dirs_body os dry_run directory st)
       (\<lambda>st'. cleanup_dirs_inner os dry_run (resume (fst st')) st')"

text \<open>\<open>for dir_pattern in patterns: ...\<close>\<close>

primrec cleanup_dirs_outer ::
    "'fs os \<Rightarrow> bool \<Rightarrow> string \<Rightarrow> string list \<Rightarrow> 'fs \<times> nat \<Rightarrow> ('fs \<times> nat) res" where
  "cleanup_dirs_outer os dry_run current_dir [] st = (st, [], None)"
| "cleanup_dirs_outer os dry_run current_dir (dir_pattern # patterns) st =
     then_do
       (cleanup_dirs_inner os dry_run (path_glob os dir_pattern current_dir (fst st)) st)
       (cleanup_dirs_outer os dry_run current_dir patterns)"

definition cleanup_dirs :: "'fs os \<Rightarrow> string list \<Rightarrow> bool \<Rightarrow> string \<Rightarrow> 'fs \<Rightarrow> 'fs res" where
  "cleanup_dirs os patterns dry_run workdir fs =
     (let current_dir = workdir;
          warn2_counter = 0
      in case cleanup_dirs_outer os dry_run current_dir patterns (fs, warn2_counter) of
           ((fs', _), ev, r) \<Rightarrow> (fs', ev, r))"

subsection \<open>cleanup_files\<close>

text \<open>
  The body of the inner loop of \<open>cleanup_files\<close> for one \<open>file_\<close>. Its state is the
  file system, \<open>error_count\<close> and \<open>error_message\<close>. The \<open>except os.error\<close> clause
  catches every error of \<open>remove_p\<close>; \<open>not error_message\<close> holds of \<open>None\<close> and of
  the empty string.
\<close>

definition cleanup_files_body ::
    "'fs os \<Rightarrow> bool \<Rightarrow> string \<Rightarrow> 'fs \<times> nat \<times> string option
       \<Rightarrow> ('fs \<times> nat \<times> string option) res" where
  "cleanup_files_body os dry_run file' st =
     (case st of (fs, error_count, error_message) \<Rightarrow>
        if prefix (python_basedir os) (abspath os file') then
          ((fs, error_count, error_message), [], None)
        else if dry_run then
          ((fs, error_count, error_message),
           [Print (''REMOVE: '' @ file' @ '' (dry-run)'')], None)
        else
          (case remove_p os file' fs of
             (fs', None) \<Rightarrow>
               ((fs', error_count, error_message),
                [Print (''REMOVE: '' @ file'), Remove file' None], None)
           | (fs', Some e) \<Rightarrow>
               let message = class_name e @ '': '' @ error_text e in
               ((fs', error_count + 1,
                 (if error_message = None \<or> error_message = Some [] then Some message
                  else error_message)),
                [Print (''REMOVE: '' @ file'), Remove file' (Some e),
                 Print (message @ '' basedir: '' @ python_basedir os)],
                None)))"

text \<open>\<open>for file_ in path_glob(file_pattern, current_dir): ...\<close>\<close>

primrec cleanup_files_inner ::
    "'fs os \<Rightarrow> bool \<Rightarrow> 'fs gen \<Rightarrow> 'fs \<times> nat \<times> string option
       \<Rightarrow> ('fs \<times> nat \<times> string option) res" where
  "cleanup_files_inner os dry_run Stop st = (st, [], None)"
| "cleanup_files_inner os dry_run (Yield file' resume) st =
     then_do (cleanup_files_body os dry_run file' st)
       (\<lambda>st'. cleanup_files_inner os dry_run (resume (fst st')) st')"

text \<open>\<open>for file_pattern in patterns: ...\<close>\<close>

primrec cleanup_files_outer ::
    "'fs os \<Rightarrow> bool \<Rightarrow> string \<Rightarrow> string list \<Rightarrow> 'fs \<times> nat \<times> string option
       \<Rightarrow> ('fs \<times> nat \<times> string option) res" where
  "cleanup_files_outer os dry_run current_dir [] st = (st, [], None)"
| "cleanup_files_outer os dry_run current_dir (file_pattern # patterns) st =
     then_do
       (cleanup_files_inner os dry_run (path_glob os file_pattern current_dir (fst st)) st)
       (cleanup_files_outer os dry_run current_dir patterns)"

text \<open>
  The two loops of \<open>cleanup_files\<close>, from \<open>error_message = None\<close> and
  \<open>error_count = 0\<close>: the state the function has reached when it arrives at its last
  statement.
\<close>

definition cleanup_files_loops ::
    "'fs os \<Rightarrow> string list \<Rightarrow> bool \<Rightarrow> string \<Rightarrow> 'fs
       \<Rightarrow> ('fs \<times> nat \<times> string option) res" where
  "cleanup_files_loops os patterns dry_run workdir fs =
     (let current_dir = workdir;
          error_message = None;
          error_count = 0
      in cleanup_files_outer os dry_run current_dir patterns (fs, error_count, error_message))"

text \<open>
  The function ends with \<open>if False and error_message: raise CleanupError(error_message)\<close>;
  a non-empty string is what Python takes for true.
\<close>

definition cleanup_files :: "'fs os \<Rightarrow> string list \<Rightarrow> bool \<Rightarrow> string \<Rightarrow> 'fs \<Rightarrow> 'fs res" where
  "cleanup_files os patterns dry_run workdir fs =
     (case cleanup_files_loops os patterns dry_run workdir fs of
        ((fs', error_count, error_message), ev, Some e) \<Rightarrow> (fs', ev, Some e)
      | ((fs', error_count, error_message), ev, None) \<Rightarrow>
          if False \<and> error_message \<noteq> None \<and> error_message \<noteq> Some []
          then (fs', ev, Some (CleanupError (the error_message)))
          else (fs', ev, None))"

subsection \<open>Configuration and the registries of cleanup tasks\<close>

text \<open>
  The configuration groups \<open>clean\<close> and \<open>clean_all\<close> of the context. The values the
  source guards with \<open>or []\<close> may be \<open>None\<close>.
\<close>

record clean_config =
  directories :: "string list"
  files :: "string list"
  extra_directories :: "string list option"
  extra_files :: "string list option"

record clean_all_config =
  all_directories :: "string list option"
  all_files :: "string list option"

record invoke_context =
  cfg_clean :: clean_config
  cfg_clean_all :: clean_all_config

text \<open>\<open>x or []\<close> for a list or \<open>None\<close>.\<close>

definition or_empty :: "string list option \<Rightarrow> string list" where
  "or_empty x = (case x of None \<Rightarrow> [] | Some xs \<Rightarrow> xs)"

text \<open>
  A cleanup task has the signature \<open>clean(ctx, dry_run=False)\<close>. The \<open>Executor\<close> runs
  it on a context of its own, built from \<open>ctx.config\<close>: the task receives the
  configuration by value, and the configuration of the caller is the same after the
  call. This is the \<open>Executor\<close> of invoke 0.13.0, the \<open>INVOKE_MINVERSION\<close> of
  \<open>tasks/__init__.py\<close>; what the \<open>Executor\<close> of a later release does to the
  configuration it is given is not part of the model. A registry (an
  \<open>invoke.Collection\<close>) holds the tasks under their names, in the order of registration.
\<close>

type_synonym 'fs task = "invoke_context \<Rightarrow> bool \<Rightarrow> 'fs \<Rightarrow> 'fs res"

text \<open>
  \<open>for cleanup_task in cleanup_tasks.tasks:\<close> prints the name of the task and executes
  it with \<open>dry_run\<close>; an exception of a task ends the loop.
\<close>

primrec execute_cleanup_tasks ::
    "invoke_context \<Rightarrow> (string \<times> 'fs task) list \<Rightarrow> bool \<Rightarrow> 'fs \<Rightarrow> 'fs res" where
  "execute_cleanup_tasks ctx [] dry_run fs = (fs, [], None)"
| "execute_cleanup_tasks ctx (entry # cleanup_tasks) dry_run fs =
     then_do
       (then_do (fs, [Print (''CLEANUP TASK: '' @ fst entry)], None)
          (snd entry ctx dry_run))
       (execute_cleanup_tasks ctx cleanup_tasks dry_run)"

subsection \<open>The tasks clean, clean-all and clean_python\<close>

text \<open>
  \<open>clean\<close> binds \<open>directories\<close> and \<open>files\<close> to the lists of the configuration and
  extends them in place (\<open>list.extend\<close>) when the extra lists are not empty, so the
  lists of the configuration are the extended lists from then on. The task returns the
  context it leaves together with the file system.
\<close>

definition clean ::
    "'fs os \<Rightarrow> (string \<times> 'fs task) list \<Rightarrow> invoke_context \<Rightarrow> bool \<Rightarrow> 'fs \<Rightarrow> (invoke_context \<times> 'fs) res" where
  "clean os cleanup_tasks ctx dry_run fs =
     (let extra_directories = or_empty (extra_directories (cfg_clean ctx));
          extra_files = or_empty (extra_files (cfg_clean ctx));
          directories' =
            (if extra_directories \<noteq> [] then directories (cfg_clean ctx) @ extra_directories
             else directories (cfg_clean ctx));
          files' =
            (if extra_files \<noteq> [] then files (cfg_clean ctx) @ extra_files
             else files (cfg_clean ctx));
          ctx' = ctx\<lparr>cfg_clean := (cfg_clean ctx)\<lparr>directories := directories', files := files'\<rparr>\<rparr>
      in case then_do
                (then_do (execute_cleanup_tasks ctx' cleanup_tasks dry_run fs)
                   (cleanup_dirs os directories' dry_run ''.''))
                (cleanup_files os files' dry_run ''.'') of
           (fs', ev, r) \<Rightarrow> ((ctx', fs'), ev, r))"

definition clean_all ::
    "'fs os \<Rightarrow> (string \<times> 'fs task) list \<Rightarrow> (string \<times> 'fs task) list \<Rightarrow> invoke_context \<Rightarrow> bool
       \<Rightarrow> 'fs \<Rightarrow> (invoke_context \<times> 'fs) res" where
  "clean_all os cleanup_tasks cleanup_all_tasks ctx dry_run fs =
     (case then_do
             (then_do
                (cleanup_dirs os (or_empty (all_directories (cfg_clean_all ctx))) dry_run ''.'' fs)
                (cleanup_files os (or_empty (all_files (cfg_clean_all ctx))) dry_run ''.''))
             (execute_cleanup_tasks ctx cleanup_all_tasks dry_run) of
        (fs', ev, Some e) \<Rightarrow> ((ctx, fs'), ev, Some e)
      | (fs', ev, None) \<Rightarrow>
          (case clean os cleanup_tasks ctx dry_run fs' of
             (st, ev', r) \<Rightarrow> (st, ev @ ev', r)))"

text \<open>\<open>ctx.run("py.cleanup")\<close> is skipped in a dry run.\<close>

definition clean_python :: "'fs os \<Rightarrow> 'fs task" where
  "clean_python os ctx dry_run fs =
     then_do
       (then_do
          (cleanup_dirs os [''build'', ''dist'', ''*.egg-info'', ''**/__pycache__'']
             dry_run ''.'' fs)
          (\<lambda>fs'. if \<not> dry_run
                  then (case run os ''py.cleanup'' fs' of (fs'', r) \<Rightarrow> (fs'', [Run ''py.cleanup''], r))
                  else (fs', [], None)))
       (cleanup_files os [''**/*.pyc'', ''**/*.pyo'', ''**/*$py.class''] dry_run ''.'')"

text \<open>
  The configuration the module installs, and its two registries: \<open>cleanup_tasks\<close>
  holds \<open>clean_python\<close>, \<open>cleanup_all_tasks\<close> is empty. The name of the task is the
  name of its function, as invoke 0.13.0 registers it; a later release registers it as
  \<open>clean-python\<close>.
\<close>

definition namespace_configuration :: invoke_context where
  "namespace_configuration =
     \<lparr>cfg_clean =
        \<lparr>directories = [],
         files = [''*.bak'', ''*.log'', ''*.tmp'', ''**/.DS_Store'', ''**/*.~*~''],
         extra_directories = Some [],
         extra_files = Some []\<rparr>,
      cfg_clean_all =
        \<lparr>all_directories = Some [''.venv*'', ''.tox'', ''downloads'', ''tmp''],
         all_files = Some []\<rparr>\<rparr>"

definition cleanup_tasks :: "'fs os \<Rightarrow> (string \<times> 'fs task) list" where
  "cleanup_tasks os = [(''clean_python'', clean_python os)]"

definition cleanup_all_tasks :: "(string \<times> 'fs task) list" where
  "cleanup_all_tasks = []"

subsection \<open>Reading a result and its events\<close>

abbreviation state_of :: "'s res \<Rightarrow> 's" where
  "state_of r \<equiv> fst r"

abbreviation events_of :: "'s res \<Rightarrow> event list" where
  "events_of r \<equiv> fst (snd r)"

abbreviation raised_of :: "'s res \<Rightarrow> exn option" where
  "raised_of r \<equiv> snd (snd r)"

text \<open>The lines a run printed on stdout, in order.\<close>

fun stdout :: "event list \<Rightarrow> string list" where
  "stdout [] = []"
| "stdout (Print line # ev) = line # stdout ev"
| "stdout (e # ev) = stdout ev"

text \<open>The errors that calls of \<open>remove_p\<close> raised during a run, in order.\<close>

fun failures :: "event list \<Rightarrow> os_error list" where
  "failures [] = []"
| "failures (Remove f (Some e) # ev) = e # failures ev"
| "failures (e # ev) = failures ev"

text \<open>
  What an event of \<open>cleanup_dirs\<close> can be: a printed line, or \<open>rmtree_p\<close> in a run
  that is not a dry run, on a path that neither of the two \<open>startswith\<close> tests caught.
  Likewise for \<open>cleanup_files\<close> and \<open>remove_p\<close>.
\<close>

definition dirs_event_ok :: "'fs os \<Rightarrow> bool \<Rightarrow> event \<Rightarrow> bool" where
  "dirs_event_ok os dry_run e =
     (case e of
        Print line \<Rightarrow> True
      | Rmtree d x \<Rightarrow>
          \<not> dry_run \<and> \<not> prefix (abspath os d) (sys_executable os)
            \<and> \<not> prefix (python_basedir os) (abspath os d)
      | Remove f x \<Rightarrow> False
      | Run c \<Rightarrow> False)"

definition files_event_ok :: "'fs os \<Rightarrow> bool \<Rightarrow> event \<Rightarrow> bool" where
  "files_event_ok os dry_run e =
     (case e of
        Print line \<Rightarrow> True
      | Rmtree d x \<Rightarrow> False
      | Remove f x \<Rightarrow> \<not> dry_run \<and> \<not> prefix (python_basedir os) (abspath os f)
      | Run c \<Rightarrow> False)"

subsection \<open>The candidates of a call of cleanup_dirs\<close>

text \<open>
  The directories that \<open>path_glob\<close> yields to the loops of \<open>cleanup_dirs\<close> in the
  course of a call, in the order in which the body of the inner loop is entered for
  them. A generator is resumed on the file system the body left, and an exception of
  the body ends the call.
\<close>

primrec cleanup_dirs_inner_yields ::
    "'fs os \<Rightarrow> bool \<Rightarrow> 'fs gen \<Rightarrow> 'fs \<times> nat \<Rightarrow> string list" where
  "cleanup_dirs_inner_yields os dry_run Stop st = []"
| "cleanup_dirs_inner_yields os dry_run (Yield directory resume) st =
     directory #
     (let r = cleanup_dirs_body os dry_run directory st
      in if raised_of r = None
         then cleanup_dirs_inner_yields os dry_run (resume (fst (state_of r))) (state_of r)
         else [])"

primrec cleanup_dirs_outer_yields ::
    "'fs os \<Rightarrow> bool \<Rightarrow> string \<Rightarrow> string list \<Rightarrow> 'fs \<times> nat \<Rightarrow> string list" where
  "cleanup_dirs_outer_yields os dry_run current_dir [] st = []"
| "cleanup_dirs_outer_yields os dry_run current_dir (dir_pattern # patterns) st =
     (let g = path_glob os dir_pattern current_dir (fst st);
          r = cleanup_dirs_inner os dry_run g st
      in cleanup_dirs_inner_yields os dry_run g st @
         (if raised_of r = None
          then cleanup_dirs_outer_yields os dry_run current_dir patterns (state_of r)
          else []))"

definition cleanup_dirs_yields ::
    "'fs os \<Rightarrow> string list \<Rightarrow> bool \<Rightarrow> string \<Rightarrow> 'fs \<Rightarrow> string list" where
  "cleanup_dirs_yields os patterns dry_run workdir fs =
     cleanup_dirs_outer_yields os dry_run workdir patterns (fs, 0)"

subsection \<open>A POSIX environment for concrete runs\<close>

text \<open>
  A concrete instance of the interface, used to run the module on explicit inputs. The
  string functions follow \<open>posixpath\<close> (\<open>split\<close>, \<open>normpath\<close>, \<open>join\<close>,
  \<open>dirname\<close>, \<open>abspath\<close>). A file system is the list of its paths, written as
  \<open>pathlib\<close> prints them relative to the working directory \<open>.\<close>, each with its kind.
  \<open>glob\<close> yields the existing paths that match, taken when the loop starts; a pattern
  part \<open>**\<close> stands for any number of directories, \<open>*\<close> and \<open>?\<close> match inside one
  name (a pattern whose last part is \<open>**\<close> is not covered: it matches nothing here).
  \<open>rmtree_p\<close> removes a directory with everything below it, tolerates a missing path
  and raises on a file; \<open>remove_p\<close> removes a file, tolerates a missing path and raises
  on a directory; a call that raises leaves the file system as it is. The external command
  changes nothing. The instance serves the concrete runs only: it covers the patterns and
  paths of these runs, not all of \<open>pathlib\<close> (no character classes, no trailing
  separator, no leading \<open>./\<close>), and the properties stated for every \<open>os\<close> do not
  depend on it.
\<close>

datatype kind = File | Dir

type_synonym posix_fs = "(string \<times> kind) list"

fun split_sep :: "string \<Rightarrow> string list" where
  "split_sep [] = [[]]"
| "split_sep (c # cs) =
     (if c = CHR ''/'' then [] # split_sep cs
      else (case split_sep cs of [] \<Rightarrow> [[c]] | w # ws \<Rightarrow> (c # w) # ws))"

fun join_sep :: "string list \<Rightarrow> string" where
  "join_sep [] = []"
| "join_sep [w] = w"
| "join_sep (w # v # ws) = w @ ''/'' @ join_sep (v # ws)"

fun norm_comps :: "bool \<Rightarrow> string list \<Rightarrow> string list \<Rightarrow> string list" where
  "norm_comps initial_slashes [] new_comps = new_comps"
| "norm_comps initial_slashes (part # comps) new_comps =
     (if part = [] \<or> part = ''.'' then norm_comps initial_slashes comps new_comps
      else if part \<noteq> ''..'' \<or> (\<not> initial_slashes \<and> new_comps = [])
                \<or> (new_comps \<noteq> [] \<and> last new_comps = ''..'')
      then norm_comps initial_slashes comps (new_comps @ [part])
      else if new_comps \<noteq> [] then norm_comps initial_slashes comps (butlast new_comps)
      else norm_comps initial_slashes comps new_comps)"

definition normpath :: "string \<Rightarrow> string" where
  "normpath path =
     (if path = [] then ''.''
      else
        let initial_slashes =
              (if prefix ''/'' path
               then (if prefix ''//'' path \<and> \<not> prefix ''///'' path then 2 else 1)
               else (0::nat));
            comps = norm_comps (initial_slashes \<noteq> 0) (split_sep path) [];
            path' = replicate initial_slashes CHR ''/'' @ join_sep comps
        in if path' = [] then ''.'' else path')"

definition posix_join :: "string \<Rightarrow> string \<Rightarrow> string" where
  "posix_join a b =
     (if prefix ''/'' b then b
      else if a = [] \<or> last a = CHR ''/'' then a @ b
      else a @ ''/'' @ b)"

definition posix_dirname :: "string \<Rightarrow> string" where
  "posix_dirname p =
     (let head = rev (dropWhile (\<lambda>c. c \<noteq> CHR ''/'') (rev p))
      in if head \<noteq> [] \<and> \<not> list_all (\<lambda>c. c = CHR ''/'') head
         then rev (dropWhile (\<lambda>c. c = CHR ''/'') (rev head))
         else head)"

definition posix_abspath :: "string \<Rightarrow> string \<Rightarrow> string" where
  "posix_abspath cwd0 path = normpath (if prefix ''/'' path then path else posix_join cwd0 path)"

fun fnmatch :: "string \<Rightarrow> string \<Rightarrow> bool" where
  "fnmatch [] [] = True"
| "fnmatch [] (c # cs) = False"
| "fnmatch (p # ps) [] = (p = CHR ''*'' \<and> fnmatch ps [])"
| "fnmatch (p # ps) (c # cs) =
     (if p = CHR ''*'' then fnmatch ps (c # cs) \<or> fnmatch (p # ps) cs
      else (p = CHR ''?'' \<or> p = c) \<and> fnmatch ps cs)"

fun match_parts :: "string list \<Rightarrow> string list \<Rightarrow> bool" where
  "match_parts [] [] = True"
| "match_parts [] (s # ss) = False"
| "match_parts (p # ps) [] = False"
| "match_parts (p # ps) (s # ss) =
     (if p = ''**'' then match_parts ps (s # ss) \<or> match_parts (p # ps) ss
      else fnmatch p s \<and> match_parts ps ss)"

definition glob_match :: "string \<Rightarrow> string \<Rightarrow> bool" where
  "glob_match pattern path = match_parts (split_sep pattern) (split_sep path)"

definition relative_to :: "string \<Rightarrow> string \<Rightarrow> string option" where
  "relative_to current_dir path =
     (if current_dir = ''.'' then Some path
      else if prefix (current_dir @ ''/'') path then Some (drop (length current_dir + 1) path)
      else None)"

definition posix_glob :: "string \<Rightarrow> string \<Rightarrow> posix_fs \<Rightarrow> posix_fs gen" where
  "posix_glob current_dir pattern fs =
     gen_of_list
       [path \<leftarrow> map fst fs.
          (case relative_to current_dir path of
             None \<Rightarrow> False
           | Some rel \<Rightarrow> glob_match pattern rel)]"


definition below :: "string \<Rightarrow> string \<Rightarrow> bool" where
  "below d path = (path = d \<or> prefix (d @ ''/'') path)"

definition posix_rmtree_p :: "string \<Rightarrow> posix_fs \<Rightarrow> posix_fs \<times> os_error option" where
  "posix_rmtree_p d fs =
     (case map_of fs d of
        None \<Rightarrow> (fs, None)
      | Some File \<Rightarrow>
          (fs, Some (OS_Error ''NotADirectoryError''
                       (''[Errno 20] Not a directory: '' @ [CHR 0x27] @ d @ [CHR 0x27])))
      | Some Dir \<Rightarrow> ([entry \<leftarrow> fs. \<not> below d (fst entry)], None))"

definition posix_remove_p :: "string \<Rightarrow> posix_fs \<Rightarrow> posix_fs \<times> os_error option" where
  "posix_remove_p f fs =
     (case map_of fs f of
        None \<Rightarrow> (fs, None)
      | Some File \<Rightarrow> ([entry \<leftarrow> fs. fst entry \<noteq> f], None)
      | Some Dir \<Rightarrow>
          (fs, Some (OS_Error ''IsADirectoryError''
                       (''[Errno 21] Is a directory: '' @ [CHR 0x27] @ f @ [CHR 0x27]))))"

definition posix :: "string \<Rightarrow> string \<Rightarrow> posix_fs os" where
  "posix executable cwd0 =
     \<lparr>sys_executable = executable,
      cwd = cwd0,
      abspath = posix_abspath cwd0,
      dirname = posix_dirname,
      joinpath = posix_join,
      glob = posix_glob,
      rmtree_p = posix_rmtree_p,
      remove_p = posix_remove_p,
      run = (\<lambda>command fs. (fs, None))\<rparr>"

definition example_os :: "posix_fs os" where
  "example_os = posix ''/home/u/proj/venv/bin/python'' ''/home/u/proj''"

definition example_fs :: posix_fs where
  "example_fs =
     [(''venv'', Dir), (''venv/bin'', Dir), (''venv/bin/python'', File),
      (''venv/lib'', Dir), (''venv/lib/a'', Dir), (''venv/lib/b'', Dir), (''venv/lib/c'', Dir),
      (''venv/lib/d'', Dir), (''venv/lib/e'', Dir), (''venv/lib/f'', Dir),
      (''venv-other'', Dir), (''ve'', Dir), (''tmp'', Dir), (''tmp/x.log'', File),
      (''a.log'', File), (''d.tmp'', Dir), (''keep.txt'', File)]"

subsection \<open>Dry runs\<close>

text \<open>
  A result is harmless for a file system when it leaves that file system and every event
  of it is a printed line: no call of \<open>rmtree_p\<close>, \<open>remove_p\<close> or \<open>ctx.run\<close> was
  made. \<open>dry_mark\<close> appends the dry-run suffix
  to the \<open>RMTREE:\<close> and \<open>REMOVE:\<close> lines. \<open>fs_result\<close> forgets the context a task
  returns.
\<close>

definition is_print :: "event \<Rightarrow> bool" where
  "is_print e = (case e of Print line \<Rightarrow> True | Rmtree d x \<Rightarrow> False | Remove f x \<Rightarrow> False | Run c \<Rightarrow> False)"

definition dry_mark :: "string \<Rightarrow> string" where
  "dry_mark line =
     (if prefix ''RMTREE: '' line \<or> prefix ''REMOVE: '' line then line @ '' (dry-run)''
      else line)"

definition harmless :: "'fs \<Rightarrow> 'fs res \<Rightarrow> bool" where
  "harmless fs r = (state_of r = fs \<and> list_all is_print (events_of r))"

definition fs_result :: "(invoke_context \<times> 'fs) res \<Rightarrow> 'fs res" where
  "fs_result r = (snd (state_of r), events_of r, raised_of r)"

subsection \<open>Errors of the file deleter\<close>

text \<open>
  \<open>error_message_of\<close> is the \<open>message\<close> the file deleter builds from an error;
  \<open>retained\<close> is the value of \<open>error_message\<close> after a sequence of errors;
  \<open>removed_paths\<close> lists the paths on which a run called \<open>remove_p\<close>.
\<close>

definition error_message_of :: "os_error \<Rightarrow> string" where
  "error_message_of e = class_name e @ '': '' @ error_text e"

definition retained :: "string option \<Rightarrow> os_error list \<Rightarrow> string option" where
  "retained error_message errors =
     (if error_message = None \<or> error_message = Some []
      then (case errors of [] \<Rightarrow> error_message | e # _ \<Rightarrow> Some (error_message_of e))
      else error_message)"

fun removed_paths :: "event list \<Rightarrow> string list" where
  "removed_paths [] = []"
| "removed_paths (Remove f x # ev) = f # removed_paths ev"
| "removed_paths (e # ev) = removed_paths ev"

subsection \<open>A project directory, a configuration with extras, and a task that prints\<close>

definition project_fs :: posix_fs where
  "project_fs =
     [(''a.log'', File), (''b.tmp'', File), (''keep.txt'', File), (''y.bak2'', File),
      (''tmp'', Dir), (''tmp/x'', File), (''pkg'', Dir), (''pkg/__pycache__'', Dir),
      (''pkg/__pycache__/x.pyc'', File), (''pkg/x.py'', File)]"

definition extras_configuration :: invoke_context where
  "extras_configuration =
     \<lparr>cfg_clean =
        \<lparr>directories = [], files = [''*.log''],
         extra_directories = None, extra_files = Some [''*.bak2'']\<rparr>,
      cfg_clean_all = \<lparr>all_directories = Some [''tmp''], all_files = None\<rparr>\<rparr>"

definition say :: "string \<Rightarrow> 'fs task" where
  "say line ctx dry_run fs = (fs, [Print line], None)"




section \<open>Properties\<close>

subsection \<open>Sequencing\<close>

lemma then_do_events:
  "events_of (then_do r f) =
     (if raised_of r = None then events_of r @ events_of (f (state_of r)) else events_of r)"
  by (auto simp: then_do_def split: prod.splits option.splits)

lemma then_do_state:
  "state_of (then_do r f) =
     (if raised_of r = None then state_of (f (state_of r)) else state_of r)"
  by (auto simp: then_do_def split: prod.splits option.splits)

lemma then_do_raised:
  "raised_of (then_do r f) =
     (if raised_of r = None then raised_of (f (state_of r)) else raised_of r)"
  by (auto simp: then_do_def split: prod.splits option.splits)

lemma then_do_list_all:
  "list_all Q (events_of r) \<Longrightarrow> (\<And>s. list_all Q (events_of (f s))) \<Longrightarrow>
     list_all Q (events_of (then_do r f))"
  by (simp add: then_do_events)

subsection \<open>What the deleters can do\<close>

lemma cleanup_dirs_body_ok:
  "list_all (dirs_event_ok os dry_run) (events_of (cleanup_dirs_body os dry_run directory st))"
  by (auto simp: cleanup_dirs_body_def dirs_event_ok_def Let_def split: prod.splits)

lemma cleanup_dirs_inner_ok:
  "list_all (dirs_event_ok os dry_run) (events_of (cleanup_dirs_inner os dry_run g st))"
  by (induction g arbitrary: st) (simp_all add: then_do_list_all cleanup_dirs_body_ok)

lemma cleanup_dirs_outer_ok:
  "list_all (dirs_event_ok os dry_run)
     (events_of (cleanup_dirs_outer os dry_run current_dir patterns st))"
  by (induction patterns arbitrary: st) (simp_all add: then_do_list_all cleanup_dirs_inner_ok)

lemma cleanup_dirs_proj:
  "state_of (cleanup_dirs os patterns dry_run workdir fs) =
     fst (state_of (cleanup_dirs_outer os dry_run workdir patterns (fs, 0)))"
  "events_of (cleanup_dirs os patterns dry_run workdir fs) =
     events_of (cleanup_dirs_outer os dry_run workdir patterns (fs, 0))"
  "raised_of (cleanup_dirs os patterns dry_run workdir fs) =
     raised_of (cleanup_dirs_outer os dry_run workdir patterns (fs, 0))"
  by (simp_all add: cleanup_dirs_def split: prod.splits)

lemma cleanup_dirs_ok:
  "list_all (dirs_event_ok os dry_run) (events_of (cleanup_dirs os patterns dry_run workdir fs))"
  by (simp add: cleanup_dirs_proj cleanup_dirs_outer_ok)

lemma cleanup_files_body_ok:
  "list_all (files_event_ok os dry_run) (events_of (cleanup_files_body os dry_run f st))"
  by (auto simp: cleanup_files_body_def files_event_ok_def Let_def
           split: prod.splits option.splits)

lemma cleanup_files_inner_ok:
  "list_all (files_event_ok os dry_run) (events_of (cleanup_files_inner os dry_run g st))"
  by (induction g arbitrary: st) (simp_all add: then_do_list_all cleanup_files_body_ok)

lemma cleanup_files_outer_ok:
  "list_all (files_event_ok os dry_run)
     (events_of (cleanup_files_outer os dry_run current_dir patterns st))"
  by (induction patterns arbitrary: st) (simp_all add: then_do_list_all cleanup_files_inner_ok)

lemma cleanup_files_body_raised:
  "raised_of (cleanup_files_body os dry_run f st) = None"
  by (simp add: cleanup_files_body_def Let_def split: prod.splits option.splits)

lemma cleanup_files_inner_raised:
  "raised_of (cleanup_files_inner os dry_run g st) = None"
  by (induction g arbitrary: st) (simp_all add: then_do_raised cleanup_files_body_raised)

lemma cleanup_files_outer_raised:
  "raised_of (cleanup_files_outer os dry_run current_dir patterns st) = None"
  by (induction patterns arbitrary: st) (simp_all add: then_do_raised cleanup_files_inner_raised)

lemma cleanup_files_proj:
  "state_of (cleanup_files os patterns dry_run workdir fs) =
     fst (state_of (cleanup_files_loops os patterns dry_run workdir fs))"
  "events_of (cleanup_files os patterns dry_run workdir fs) =
     events_of (cleanup_files_loops os patterns dry_run workdir fs)"
  "raised_of (cleanup_files os patterns dry_run workdir fs) = None"
  using cleanup_files_outer_raised [of os dry_run workdir patterns "(fs, 0, None)"]
  by (auto simp add: cleanup_files_def cleanup_files_loops_def split: prod.splits option.splits)

lemma cleanup_files_ok:
  "list_all (files_event_ok os dry_run) (events_of (cleanup_files os patterns dry_run workdir fs))"
  by (simp add: cleanup_files_proj cleanup_files_loops_def cleanup_files_outer_ok)

subsection \<open>The interpreter is never removed\<close>

lemma cleanup_dirs_body_refuses:
  "prefix (abspath os P) (sys_executable os) \<Longrightarrow>
     cleanup_dirs_body os dry_run P st =
       (st, [Print (''SKIP-SUICIDE: '' @ [CHR 0x27] @ P @ [CHR 0x27]
                      @ '' contains current python executable'')], None)"
  by (simp add: cleanup_dirs_body_def split: prod.splits)

lemma cleanup_dirs_inner_reports:
  assumes "prefix (abspath os P) (sys_executable os)"
  shows "P \<in> set (cleanup_dirs_inner_yields os dry_run g st) \<Longrightarrow>
     Print (''SKIP-SUICIDE: '' @ [CHR 0x27] @ P @ [CHR 0x27]
              @ '' contains current python executable'')
       \<in> set (events_of (cleanup_dirs_inner os dry_run g st))"
proof (induction g arbitrary: st)
  case Stop
  then show ?case by simp
next
  case (Yield d resume)
  let ?r = "cleanup_dirs_body os dry_run d st"
  show ?case
  proof (cases "P = d")
    case True
    with cleanup_dirs_body_refuses [OF assms, of dry_run st] show ?thesis
      by (simp add: then_do_events)
  next
    case False
    with Yield.prems have n: "raised_of ?r = None"
      and p: "P \<in> set (cleanup_dirs_inner_yields os dry_run (resume (fst (state_of ?r)))
                          (state_of ?r))"
      by (simp_all add: Let_def split: if_splits)
    from Yield.IH [OF rangeI p] n show ?thesis
      by (simp add: then_do_events)
  qed
qed

lemma cleanup_dirs_outer_reports:
  assumes "prefix (abspath os P) (sys_executable os)"
  shows "P \<in> set (cleanup_dirs_outer_yields os dry_run current_dir patterns st) \<Longrightarrow>
     Print (''SKIP-SUICIDE: '' @ [CHR 0x27] @ P @ [CHR 0x27]
              @ '' contains current python executable'')
       \<in> set (events_of (cleanup_dirs_outer os dry_run current_dir patterns st))"
proof (induction patterns arbitrary: st)
  case Nil
  then show ?case by simp
next
  case (Cons p ps)
  let ?g = "path_glob os p current_dir (fst st)"
  let ?r = "cleanup_dirs_inner os dry_run ?g st"
  from Cons.prems consider
      (here) "P \<in> set (cleanup_dirs_inner_yields os dry_run ?g st)"
    | (later) "raised_of ?r = None"
        "P \<in> set (cleanup_dirs_outer_yields os dry_run current_dir ps (state_of ?r))"
    by (auto simp: Let_def split: if_splits)
  then show ?case
  proof cases
    case here
    from cleanup_dirs_inner_reports [OF assms this] show ?thesis
      by (simp add: then_do_events)
  next
    case later
    from Cons.IH [OF later(2)] later(1) show ?thesis
      by (simp add: then_do_events)
  qed
qed

text \<open>
  Claim C1. Let \<open>P\<close> be a path whose absolute form is a prefix of the path of the running
  interpreter. Whatever the patterns, the working directory and the file system, a call
  of \<open>cleanup_dirs\<close> never calls \<open>rmtree_p\<close> on \<open>P\<close>, and if \<open>P\<close> is among the
  candidates that \<open>path_glob\<close> yields during the call, the call prints
  \<open>SKIP-SUICIDE: 'P' contains current python executable\<close>. At the candidate itself, the
  loop prints that line, leaves the file system and the counter as they are, and goes on
  with the next candidate.
\<close>

theorem cleanup_dirs_spares_interpreter_ancestors:
  assumes "prefix (abspath os P) (sys_executable os)"
  shows "(\<forall>x. Rmtree P x \<notin> set (events_of (cleanup_dirs os patterns dry_run workdir fs))) \<and>
         (P \<in> set (cleanup_dirs_yields os patterns dry_run workdir fs) \<longrightarrow>
            Print (''SKIP-SUICIDE: '' @ [CHR 0x27] @ P @ [CHR 0x27]
                     @ '' contains current python executable'')
              \<in> set (events_of (cleanup_dirs os patterns dry_run workdir fs))) \<and>
         cleanup_dirs_inner os dry_run (Yield P resume) st =
           then_do
             (st, [Print (''SKIP-SUICIDE: '' @ [CHR 0x27] @ P @ [CHR 0x27]
                            @ '' contains current python executable'')], None)
             (\<lambda>st'. cleanup_dirs_inner os dry_run (resume (fst st')) st')"
proof (intro conjI impI)
  show "\<forall>x. Rmtree P x \<notin> set (events_of (cleanup_dirs os patterns dry_run workdir fs))"
  proof (intro allI notI)
    fix x
    assume "Rmtree P x \<in> set (events_of (cleanup_dirs os patterns dry_run workdir fs))"
    with cleanup_dirs_ok [of os dry_run patterns workdir fs]
    have "dirs_event_ok os dry_run (Rmtree P x)"
      by (simp add: list_all_iff)
    with assms show False
      by (simp add: dirs_event_ok_def)
  qed
next
  assume "P \<in> set (cleanup_dirs_yields os patterns dry_run workdir fs)"
  then have "P \<in> set (cleanup_dirs_outer_yields os dry_run workdir patterns (fs, 0))"
    by (simp add: cleanup_dirs_yields_def)
  from cleanup_dirs_outer_reports [OF assms this]
  show "Print (''SKIP-SUICIDE: '' @ [CHR 0x27] @ P @ [CHR 0x27]
                 @ '' contains current python executable'')
          \<in> set (events_of (cleanup_dirs os patterns dry_run workdir fs))"
    by (simp add: cleanup_dirs_proj)
next
  from assms show "cleanup_dirs_inner os dry_run (Yield P resume) st =
           then_do
             (st, [Print (''SKIP-SUICIDE: '' @ [CHR 0x27] @ P @ [CHR 0x27]
                            @ '' contains current python executable'')], None)
             (\<lambda>st'. cleanup_dirs_inner os dry_run (resume (fst st')) st')"
    by (simp add: cleanup_dirs_body_def split: prod.splits)
qed

text \<open>
  A run: the project directory holds the environment \<open>venv\<close> of the interpreter and a
  directory \<open>d.tmp\<close>. \<open>cleanup_dirs\<close> with the patterns \<open>venv\<close> and \<open>*.tmp\<close> is
  handed both, prints the line for \<open>venv\<close>, and removes \<open>d.tmp\<close> only.
\<close>

theorem cleanup_dirs_spares_interpreter_ancestors_witness:
  "prefix (abspath example_os ''venv'') (sys_executable example_os) \<and>
   cleanup_dirs_yields example_os [''venv'', ''*.tmp''] False ''.'' example_fs
     = [''venv'', ''d.tmp''] \<and>
   events_of (cleanup_dirs example_os [''venv'', ''*.tmp''] False ''.'' example_fs)
     = [Print (''SKIP-SUICIDE: '' @ [CHR 0x27] @ ''venv'' @ [CHR 0x27]
                 @ '' contains current python executable''),
        Print ''RMTREE: d.tmp'', Rmtree ''d.tmp'' None] \<and>
   raised_of (cleanup_dirs example_os [''venv'', ''*.tmp''] False ''.'' example_fs) = None \<and>
   map fst (state_of (cleanup_dirs example_os [''venv'', ''*.tmp''] False ''.'' example_fs))
     = filter (\<lambda>p. p \<noteq> ''d.tmp'') (map fst example_fs) \<and>
   (\<forall>x. Rmtree ''venv'' x \<notin>
          set (events_of (cleanup_dirs example_os [''venv'', ''*.tmp''] False ''.'' example_fs))) \<and>
   Print (''SKIP-SUICIDE: '' @ [CHR 0x27] @ ''venv'' @ [CHR 0x27]
            @ '' contains current python executable'')
     \<in> set (events_of (cleanup_dirs example_os [''venv'', ''*.tmp''] False ''.'' example_fs)) \<and>
   cleanup_dirs_inner example_os False (Yield ''venv'' (\<lambda>fs. Stop)) (example_fs, 0) =
     ((example_fs, 0),
      [Print (''SKIP-SUICIDE: '' @ [CHR 0x27] @ ''venv'' @ [CHR 0x27]
                @ '' contains current python executable'')],
      None)"
proof -
  have h: "prefix (abspath example_os ''venv'') (sys_executable example_os)"
    by code_simp
  have y: "cleanup_dirs_yields example_os [''venv'', ''*.tmp''] False ''.'' example_fs
             = [''venv'', ''d.tmp'']"
    by code_simp
  have e: "events_of (cleanup_dirs example_os [''venv'', ''*.tmp''] False ''.'' example_fs)
     = [Print (''SKIP-SUICIDE: '' @ [CHR 0x27] @ ''venv'' @ [CHR 0x27]
                 @ '' contains current python executable''),
        Print ''RMTREE: d.tmp'', Rmtree ''d.tmp'' None]"
    by code_simp
  have r: "raised_of (cleanup_dirs example_os [''venv'', ''*.tmp''] False ''.'' example_fs) = None"
    by code_simp
  have s: "map fst (state_of (cleanup_dirs example_os [''venv'', ''*.tmp''] False ''.'' example_fs))
     = filter (\<lambda>p. p \<noteq> ''d.tmp'') (map fst example_fs)"
    by code_simp
  have m: "''venv'' \<in> set (cleanup_dirs_yields example_os [''venv'', ''*.tmp''] False ''.'' example_fs)"
    unfolding y by simp
  note t = cleanup_dirs_spares_interpreter_ancestors
             [OF h, of "[''venv'', ''*.tmp'']" False "''.''" example_fs "\<lambda>fs. Stop" "(example_fs, 0)"]
  have c: "cleanup_dirs_inner example_os False (Yield ''venv'' (\<lambda>fs. Stop)) (example_fs, 0) =
     ((example_fs, 0),
      [Print (''SKIP-SUICIDE: '' @ [CHR 0x27] @ ''venv'' @ [CHR 0x27]
                @ '' contains current python executable'')],
      None)"
    using t [THEN conjunct2, THEN conjunct2] by (simp add: then_do_def)
  from h y e r s t [THEN conjunct1] t [THEN conjunct2, THEN conjunct1, rule_format, OF m] c
  show ?thesis
    by (intro conjI)
qed

subsection \<open>The environment base is never removed\<close>




subsection \<open>Dry runs change nothing\<close>

lemma dirs_event_ok_dry: "dirs_event_ok os True e \<Longrightarrow> is_print e"
  by (cases e) (simp_all add: dirs_event_ok_def is_print_def)

lemma files_event_ok_dry: "files_event_ok os True e \<Longrightarrow> is_print e"
  by (cases e) (simp_all add: files_event_ok_def is_print_def)

lemma cleanup_dirs_body_dry:
  "fst (state_of (cleanup_dirs_body os True d st)) = fst st \<and>
   raised_of (cleanup_dirs_body os True d st) = None"
  by (simp add: cleanup_dirs_body_def Let_def split: prod.splits)

lemma cleanup_dirs_inner_dry:
  "fst (state_of (cleanup_dirs_inner os True g st)) = fst st \<and>
   raised_of (cleanup_dirs_inner os True g st) = None"
proof (induction g arbitrary: st)
  case Stop
  show ?case by simp
next
  case (Yield d resume)
  show ?case
    using Yield.IH [OF rangeI] cleanup_dirs_body_dry [of os d st]
    by (simp add: then_do_state then_do_raised)
qed

lemma cleanup_dirs_outer_dry:
  "fst (state_of (cleanup_dirs_outer os True current_dir patterns st)) = fst st \<and>
   raised_of (cleanup_dirs_outer os True current_dir patterns st) = None"
proof (induction patterns arbitrary: st)
  case Nil
  show ?case by simp
next
  case (Cons p ps)
  show ?case
    using Cons.IH cleanup_dirs_inner_dry [of os "path_glob os p current_dir (fst st)" st]
    by (simp add: then_do_state then_do_raised)
qed

lemma cleanup_dirs_dry: "harmless fs (cleanup_dirs os patterns True workdir fs)"
  using cleanup_dirs_outer_dry [of os workdir patterns "(fs, 0)"]
    cleanup_dirs_ok [of os True patterns workdir fs]
  by (auto simp: harmless_def cleanup_dirs_proj list_all_iff dest: dirs_event_ok_dry)

lemma cleanup_files_body_dry:
  "fst (state_of (cleanup_files_body os True f st)) = fst st"
  by (simp add: cleanup_files_body_def Let_def split: prod.splits)

lemma cleanup_files_inner_dry:
  "fst (state_of (cleanup_files_inner os True g st)) = fst st"
proof (induction g arbitrary: st)
  case Stop
  show ?case by simp
next
  case (Yield f resume)
  show ?case
    using Yield.IH [OF rangeI] cleanup_files_body_dry [of os f st]
    by (simp add: then_do_state cleanup_files_body_raised)
qed

lemma cleanup_files_outer_dry:
  "fst (state_of (cleanup_files_outer os True current_dir patterns st)) = fst st"
proof (induction patterns arbitrary: st)
  case Nil
  show ?case by simp
next
  case (Cons p ps)
  show ?case
    using Cons.IH cleanup_files_inner_dry [of os "path_glob os p current_dir (fst st)" st]
    by (simp add: then_do_state cleanup_files_inner_raised)
qed

lemma cleanup_files_dry: "harmless fs (cleanup_files os patterns True workdir fs)"
  using cleanup_files_outer_dry [of os workdir patterns "(fs, 0, None)"]
    cleanup_files_ok [of os True patterns workdir fs]
  by (auto simp: harmless_def cleanup_files_proj cleanup_files_loops_def list_all_iff
           dest: files_event_ok_dry)

lemma harmless_then_do:
  "harmless fs r \<Longrightarrow> harmless fs (f fs) \<Longrightarrow> harmless fs (then_do r f)"
  by (simp add: harmless_def then_do_state then_do_events)

lemma clean_python_dry: "harmless fs (clean_python os ctx True fs)"
  unfolding clean_python_def
  by (intro harmless_then_do cleanup_dirs_dry cleanup_files_dry) (simp add: harmless_def)

lemma execute_cleanup_tasks_dry:
  "(\<And>entry fs. entry \<in> set tasks \<Longrightarrow> harmless fs (snd entry ctx True fs)) \<Longrightarrow>
     harmless fs (execute_cleanup_tasks ctx tasks True fs)"
proof (induction tasks)
  case Nil
  show ?case by (simp add: harmless_def)
next
  case (Cons entry tasks)
  show ?case
    unfolding execute_cleanup_tasks.simps
    by (intro harmless_then_do Cons.IH Cons.prems) (simp_all add: harmless_def is_print_def)
qed

lemma cleanup_tasks_dry: "harmless fs (execute_cleanup_tasks ctx (cleanup_tasks os) True fs)"
  by (rule execute_cleanup_tasks_dry) (simp add: cleanup_tasks_def clean_python_dry)

lemma clean_proj:
  "snd (state_of (clean os tasks ctx dry_run fs)) =
     state_of (then_do
       (then_do (execute_cleanup_tasks (fst (state_of (clean os tasks ctx dry_run fs))) tasks dry_run fs)
          (cleanup_dirs os (directories (cfg_clean ctx) @ or_empty (extra_directories (cfg_clean ctx))) dry_run ''.''))
       (cleanup_files os (files (cfg_clean ctx) @ or_empty (extra_files (cfg_clean ctx))) dry_run ''.''))"
  "events_of (clean os tasks ctx dry_run fs) =
     events_of (then_do
       (then_do (execute_cleanup_tasks (fst (state_of (clean os tasks ctx dry_run fs))) tasks dry_run fs)
          (cleanup_dirs os (directories (cfg_clean ctx) @ or_empty (extra_directories (cfg_clean ctx))) dry_run ''.''))
       (cleanup_files os (files (cfg_clean ctx) @ or_empty (extra_files (cfg_clean ctx))) dry_run ''.''))"
  "raised_of (clean os tasks ctx dry_run fs) =
     raised_of (then_do
       (then_do (execute_cleanup_tasks (fst (state_of (clean os tasks ctx dry_run fs))) tasks dry_run fs)
          (cleanup_dirs os (directories (cfg_clean ctx) @ or_empty (extra_directories (cfg_clean ctx))) dry_run ''.''))
       (cleanup_files os (files (cfg_clean ctx) @ or_empty (extra_files (cfg_clean ctx))) dry_run ''.''))"
  "fst (state_of (clean os tasks ctx dry_run fs)) =
     ctx\<lparr>cfg_clean := (cfg_clean ctx)
           \<lparr>directories := directories (cfg_clean ctx) @ or_empty (extra_directories (cfg_clean ctx)),
            files := files (cfg_clean ctx) @ or_empty (extra_files (cfg_clean ctx))\<rparr>\<rparr>"
  by (simp_all add: clean_def Let_def split: prod.splits)

text \<open>
  Claim C3, as amended. With \<open>dry_run = True\<close>, \<open>cleanup_dirs\<close>, \<open>cleanup_files\<close>,
  \<open>clean_python\<close>, and \<open>clean\<close> and \<open>clean-all\<close> with the registries of the module,
  leave the file system as it is and call neither \<open>rmtree_p\<close> nor \<open>remove_p\<close> nor
  \<open>ctx.run\<close>. For one candidate processed from one state, the dry run prints the
  lines of the real run, with the suffix \<open>(dry-run)\<close> on the \<open>RMTREE:\<close> or
  \<open>REMOVE:\<close> line; of the lines of the file deleter only the first counts, since the
  real run may print an error line after it.
\<close>

theorem dry_run_changes_nothing:
  "harmless fs (cleanup_dirs os patterns True workdir fs) \<and>
   harmless fs (cleanup_files os patterns True workdir fs) \<and>
   harmless fs (clean_python os ctx True fs) \<and>
   harmless fs
     (fs_result (clean os (cleanup_tasks os) ctx True fs)) \<and>
   harmless fs
     (fs_result (clean_all os (cleanup_tasks os) cleanup_all_tasks ctx True fs)) \<and>
   stdout (events_of (cleanup_dirs_body os True candidate st)) =
     map dry_mark (stdout (events_of (cleanup_dirs_body os False candidate st))) \<and>
   stdout (events_of (cleanup_files_body os True candidate st')) =
     map dry_mark (take 1 (stdout (events_of (cleanup_files_body os False candidate st'))))"
proof (intro conjI)
  show "harmless fs (cleanup_dirs os patterns True workdir fs)"
    by (rule cleanup_dirs_dry)
  show "harmless fs (cleanup_files os patterns True workdir fs)"
    by (rule cleanup_files_dry)
  show "harmless fs (clean_python os ctx True fs)"
    by (rule clean_python_dry)
  have clean_dry: "harmless fs (fs_result (clean os (cleanup_tasks os) c True fs))" for c
  proof -
    have "harmless fs
      (then_do
         (then_do (execute_cleanup_tasks c' (cleanup_tasks os) True fs)
            (cleanup_dirs os ds True ''.''))
         (cleanup_files os fls True ''.''))" for c' ds fls
      by (intro harmless_then_do cleanup_tasks_dry cleanup_dirs_dry cleanup_files_dry)
    then show ?thesis
      unfolding harmless_def fs_result_def by (simp add: clean_proj(1-3))
  qed
  show "harmless fs
     (fs_result (clean os (cleanup_tasks os) ctx True fs))"
    by (rule clean_dry)
  have first: "harmless fs
      (then_do
         (then_do (cleanup_dirs os ds True ''.'' fs) (cleanup_files os fls True ''.''))
         (execute_cleanup_tasks ctx cleanup_all_tasks True))" for ds fls
    by (intro harmless_then_do cleanup_dirs_dry cleanup_files_dry)
       (simp add: cleanup_all_tasks_def harmless_def)
  show "harmless fs
     (fs_result (clean_all os (cleanup_tasks os) cleanup_all_tasks ctx True fs))"
    using first [of "or_empty (all_directories (cfg_clean_all ctx))"
                    "or_empty (all_files (cfg_clean_all ctx))"]
      clean_dry [of ctx]
    by (auto simp: clean_all_def harmless_def fs_result_def split: prod.splits option.splits)
  show "stdout (events_of (cleanup_dirs_body os True candidate st)) =
     map dry_mark (stdout (events_of (cleanup_dirs_body os False candidate st)))"
    by (simp add: cleanup_dirs_body_def dry_mark_def Let_def split: prod.splits)
  show "stdout (events_of (cleanup_files_body os True candidate st')) =
     map dry_mark (take 1 (stdout (events_of (cleanup_files_body os False candidate st'))))"
    by (simp add: cleanup_files_body_def dry_mark_def Let_def split: prod.splits option.splits)
qed

theorem dry_run_changes_nothing_witness:
  "cleanup_dirs example_os [''tmp'', ''venv''] True ''.'' example_fs =
     (example_fs,
      [Print ''RMTREE: tmp (dry-run)'',
       Print (''SKIP-SUICIDE: '' @ [CHR 0x27] @ ''venv'' @ [CHR 0x27]
                @ '' contains current python executable'')],
      None) \<and>
   harmless example_fs (cleanup_dirs example_os [''tmp'', ''venv''] True ''.'' example_fs) \<and>
   stdout (events_of (cleanup_files_body example_os False ''d.tmp'' (example_fs, 0, None))) =
     [''REMOVE: d.tmp'',
      ''IsADirectoryError: [Errno 21] Is a directory: '' @ [CHR 0x27] @ ''d.tmp'' @ [CHR 0x27]
        @ '' basedir: /home/u/proj/venv''] \<and>
   stdout (events_of (cleanup_files_body example_os True ''d.tmp'' (example_fs, 0, None))) =
     [''REMOVE: d.tmp (dry-run)'']"
proof -
  have a: "cleanup_dirs example_os [''tmp'', ''venv''] True ''.'' example_fs =
     (example_fs,
      [Print ''RMTREE: tmp (dry-run)'',
       Print (''SKIP-SUICIDE: '' @ [CHR 0x27] @ ''venv'' @ [CHR 0x27]
                @ '' contains current python executable'')],
      None)"
    by code_simp
  have b: "stdout (events_of (cleanup_files_body example_os False ''d.tmp'' (example_fs, 0, None))) =
     [''REMOVE: d.tmp'',
      ''IsADirectoryError: [Errno 21] Is a directory: '' @ [CHR 0x27] @ ''d.tmp'' @ [CHR 0x27]
        @ '' basedir: /home/u/proj/venv'']"
    by code_simp
  from dry_run_changes_nothing
         [of example_fs example_os "[''tmp'', ''venv'']" "''.''" namespace_configuration
            "''d.tmp''" "(example_fs, 0)" "(example_fs, 0, None)"]
  show ?thesis
    unfolding a b by (simp add: dry_mark_def)
qed

text \<open>
  The claim as stated fails where it says that the lines of a whole run are the same up
  to the suffix. A real run prints an error line when \<open>remove_p\<close> fails, here on the
  directory \<open>d.tmp\<close> that the file pattern \<open>*.tmp\<close> matches; the dry run has no such
  line. And a real run changes what later patterns match: with the pattern \<open>tmp\<close> given
  twice, the real run prints one \<open>RMTREE:\<close> line and the dry run two.
\<close>

theorem dry_run_output_differs:
  "stdout (events_of (cleanup_files example_os [''*.tmp''] False ''.'' example_fs)) =
     [''REMOVE: d.tmp'',
      ''IsADirectoryError: [Errno 21] Is a directory: '' @ [CHR 0x27] @ ''d.tmp'' @ [CHR 0x27]
        @ '' basedir: /home/u/proj/venv''] \<and>
   stdout (events_of (cleanup_files example_os [''*.tmp''] True ''.'' example_fs)) =
     [''REMOVE: d.tmp (dry-run)''] \<and>
   stdout (events_of (cleanup_dirs example_os [''tmp'', ''tmp''] False ''.'' example_fs)) =
     [''RMTREE: tmp''] \<and>
   stdout (events_of (cleanup_dirs example_os [''tmp'', ''tmp''] True ''.'' example_fs)) =
     [''RMTREE: tmp (dry-run)'', ''RMTREE: tmp (dry-run)''] \<and>
   stdout (events_of (cleanup_files example_os [''*.tmp''] True ''.'' example_fs)) \<noteq>
     map (\<lambda>line. line @ '' (dry-run)'')
       (stdout (events_of (cleanup_files example_os [''*.tmp''] False ''.'' example_fs))) \<and>
   stdout (events_of (cleanup_dirs example_os [''tmp'', ''tmp''] True ''.'' example_fs)) \<noteq>
     map (\<lambda>line. line @ '' (dry-run)'')
       (stdout (events_of (cleanup_dirs example_os [''tmp'', ''tmp''] False ''.'' example_fs)))"
  by code_simp

subsection \<open>The order of clean-all\<close>

lemma then_do_assoc:
  "then_do (then_do r f) g = then_do r (\<lambda>s. then_do (f s) g)"
  by (auto simp: then_do_def split: prod.splits option.splits)

lemma then_do_unit: "then_do (s, [], None) f = f s"
  by (simp add: then_do_def split: prod.splits)

lemma execute_cleanup_tasks_append:
  "execute_cleanup_tasks ctx (before @ after) dry_run fs =
     then_do (execute_cleanup_tasks ctx before dry_run fs)
       (execute_cleanup_tasks ctx after dry_run)"
proof (induction before arbitrary: fs)
  case Nil
  show ?case by (simp add: then_do_unit)
next
  case (Cons entry before)
  have "execute_cleanup_tasks ctx (before @ after) dry_run =
      (\<lambda>s. then_do (execute_cleanup_tasks ctx before dry_run s)
             (execute_cleanup_tasks ctx after dry_run))"
    by (rule ext) (rule Cons.IH)
  then show ?case
    by (simp add: then_do_assoc)
qed




subsection \<open>The extra lists of clean\<close>

text \<open>
  Claim C5. For every configuration, \<open>clean\<close> runs the directory deleter on
  \<open>clean.directories\<close> followed by \<open>clean.extra_directories\<close> and the file deleter on
  \<open>clean.files\<close> followed by \<open>clean.extra_files\<close> (\<open>None\<close> counts as the empty
  list), after the registered tasks: the extra lists are appended to the base lists, and
  every base pattern stays.
\<close>

theorem clean_appends_extras:
  "clean os tasks ctx dry_run fs =
     (let effective_directories =
            directories (cfg_clean ctx) @ or_empty (extra_directories (cfg_clean ctx));
          effective_files = files (cfg_clean ctx) @ or_empty (extra_files (cfg_clean ctx));
          ctx' = ctx\<lparr>cfg_clean := (cfg_clean ctx)
                   \<lparr>directories := effective_directories, files := effective_files\<rparr>\<rparr>;
          r1 = execute_cleanup_tasks ctx' tasks dry_run fs;
          r2 = cleanup_dirs os effective_directories dry_run ''.'' (state_of r1);
          r3 = cleanup_files os effective_files dry_run ''.'' (state_of r2)
      in if raised_of r1 \<noteq> None then ((ctx', state_of r1), events_of r1, raised_of r1)
         else if raised_of r2 \<noteq> None
         then ((ctx', state_of r2), events_of r1 @ events_of r2, raised_of r2)
         else ((ctx', state_of r3), events_of r1 @ events_of r2 @ events_of r3, None))"
proof -
  define ds where "ds = directories (cfg_clean ctx) @ or_empty (extra_directories (cfg_clean ctx))"
  define fls where "fls = files (cfg_clean ctx) @ or_empty (extra_files (cfg_clean ctx))"
  define ctx' where "ctx' = ctx\<lparr>cfg_clean := (cfg_clean ctx)\<lparr>directories := ds, files := fls\<rparr>\<rparr>"
  obtain s1 e1 x1 where f1: "execute_cleanup_tasks ctx' tasks dry_run fs = (s1, e1, x1)"
    by (rule prod_cases3)
  obtain s2 e2 x2 where f2: "cleanup_dirs os ds dry_run ''.'' s1 = (s2, e2, x2)"
    by (rule prod_cases3)
  obtain s3 e3 x3 where f3: "cleanup_files os fls dry_run ''.'' s2 = (s3, e3, x3)"
    by (rule prod_cases3)
  have n3: "x3 = None"
    using cleanup_files_proj(3) [of os fls dry_run "''.''" s2] by (simp add: f3)
  have "clean os tasks ctx dry_run fs =
      (case then_do (then_do (execute_cleanup_tasks ctx' tasks dry_run fs)
                       (cleanup_dirs os ds dry_run ''.''))
              (cleanup_files os fls dry_run ''.'') of
         (fs', ev, r) \<Rightarrow> ((ctx', fs'), ev, r))"
    by (simp add: clean_def Let_def ds_def fls_def ctx'_def)
  also have "\<dots> =
      (if x1 \<noteq> None then ((ctx', s1), e1, x1)
       else if x2 \<noteq> None then ((ctx', s2), e1 @ e2, x2)
       else ((ctx', s3), e1 @ e2 @ e3, None))"
    by (cases x1; cases x2) (simp_all add: then_do_def f1 f2 f3 n3)
  finally show ?thesis
    by (simp add: Let_def ds_def [symmetric] fls_def [symmetric] ctx'_def [symmetric] f1 f2 f3)
qed

theorem clean_appends_extras_witness:
  "clean example_os [] extras_configuration False project_fs =
     ((extras_configuration\<lparr>cfg_clean := (cfg_clean extras_configuration)
          \<lparr>directories := [], files := [''*.log'', ''*.bak2'']\<rparr>\<rparr>,
       [(''b.tmp'', File), (''keep.txt'', File), (''tmp'', Dir),
        (''tmp/x'', File), (''pkg'', Dir), (''pkg/__pycache__'', Dir),
        (''pkg/__pycache__/x.pyc'', File), (''pkg/x.py'', File)]),
      [Print ''REMOVE: a.log'', Remove ''a.log'' None, Print ''REMOVE: y.bak2'',
       Remove ''y.bak2'' None],
      None)"
proof -
  have c: "directories (cfg_clean extras_configuration)
             @ or_empty (extra_directories (cfg_clean extras_configuration)) = []"
    "files (cfg_clean extras_configuration)
             @ or_empty (extra_files (cfg_clean extras_configuration)) = [''*.log'', ''*.bak2'']"
    by (simp_all add: extras_configuration_def or_empty_def)
  have d: "cleanup_dirs example_os [] False ''.'' project_fs = (project_fs, [], None)"
    by code_simp
  have f: "cleanup_files example_os [''*.log'', ''*.bak2''] False ''.'' project_fs =
     ([(''b.tmp'', File), (''keep.txt'', File), (''tmp'', Dir),
        (''tmp/x'', File), (''pkg'', Dir), (''pkg/__pycache__'', Dir),
        (''pkg/__pycache__/x.pyc'', File), (''pkg/x.py'', File)],
      [Print ''REMOVE: a.log'', Remove ''a.log'' None, Print ''REMOVE: y.bak2'',
       Remove ''y.bak2'' None],
      None)"
    by code_simp
  from clean_appends_extras [of example_os "[]" extras_configuration False project_fs]
  show ?thesis
    unfolding c by (simp add: Let_def d f)
qed

subsection \<open>The order of the registered tasks\<close>

text \<open>
  Claim C7. Take any task of a registry. \<open>execute_cleanup_tasks\<close> first runs all tasks
  registered before it, then prints \<open>CLEANUP TASK: <name>\<close>, then runs the task, then
  runs the tasks registered after it. In \<open>clean\<close>, the events of the registered tasks
  come first and the events of the two deleters on the pattern lists of \<open>clean\<close> follow;
  when a task raises, the deleters do not run at all.
\<close>

theorem contributors_run_in_registration_order:
  "execute_cleanup_tasks ctx (before @ (name, task) # after) dry_run fs =
     then_do
       (then_do
          (then_do (execute_cleanup_tasks ctx before dry_run fs)
             (\<lambda>fs'. (fs', [Print (''CLEANUP TASK: '' @ name)], None)))
          (task ctx dry_run))
       (execute_cleanup_tasks ctx after dry_run) \<and>
   events_of (clean os tasks ctx dry_run fs) =
     (let effective_directories =
            directories (cfg_clean ctx) @ or_empty (extra_directories (cfg_clean ctx));
          effective_files = files (cfg_clean ctx) @ or_empty (extra_files (cfg_clean ctx));
          ctx' = ctx\<lparr>cfg_clean := (cfg_clean ctx)
                   \<lparr>directories := effective_directories, files := effective_files\<rparr>\<rparr>;
          r1 = execute_cleanup_tasks ctx' tasks dry_run fs;
          r2 = cleanup_dirs os effective_directories dry_run ''.'' (state_of r1);
          r3 = cleanup_files os effective_files dry_run ''.'' (state_of r2)
      in if raised_of r1 \<noteq> None then events_of r1
         else if raised_of r2 \<noteq> None then events_of r1 @ events_of r2
         else events_of r1 @ events_of r2 @ events_of r3)"
proof
  have "execute_cleanup_tasks ctx ((name, task) # after) dry_run =
      (\<lambda>s. then_do (then_do (s, [Print (''CLEANUP TASK: '' @ name)], None) (task ctx dry_run))
             (execute_cleanup_tasks ctx after dry_run))"
    by (rule ext) simp
  then show "execute_cleanup_tasks ctx (before @ (name, task) # after) dry_run fs =
     then_do
       (then_do
          (then_do (execute_cleanup_tasks ctx before dry_run fs)
             (\<lambda>fs'. (fs', [Print (''CLEANUP TASK: '' @ name)], None)))
          (task ctx dry_run))
       (execute_cleanup_tasks ctx after dry_run)"
    by (simp add: execute_cleanup_tasks_append then_do_assoc)
next
  show "events_of (clean os tasks ctx dry_run fs) =
     (let effective_directories =
            directories (cfg_clean ctx) @ or_empty (extra_directories (cfg_clean ctx));
          effective_files = files (cfg_clean ctx) @ or_empty (extra_files (cfg_clean ctx));
          ctx' = ctx\<lparr>cfg_clean := (cfg_clean ctx)
                   \<lparr>directories := effective_directories, files := effective_files\<rparr>\<rparr>;
          r1 = execute_cleanup_tasks ctx' tasks dry_run fs;
          r2 = cleanup_dirs os effective_directories dry_run ''.'' (state_of r1);
          r3 = cleanup_files os effective_files dry_run ''.'' (state_of r2)
      in if raised_of r1 \<noteq> None then events_of r1
         else if raised_of r2 \<noteq> None then events_of r1 @ events_of r2
         else events_of r1 @ events_of r2 @ events_of r3)"
    unfolding clean_proj(2) clean_proj(4)
    by (simp add: Let_def then_do_events then_do_raised then_do_state)
qed

theorem contributors_run_in_registration_order_witness:
  "execute_cleanup_tasks extras_configuration
     ([(''A'', say ''a'')] @ (''B'', say ''b'') # [(''C'', say ''c'')]) False project_fs =
     (project_fs,
      [Print ''CLEANUP TASK: A'', Print ''a'', Print ''CLEANUP TASK: B'',
       Print ''b'', Print ''CLEANUP TASK: C'', Print ''c''],
      None) \<and>
   events_of (clean example_os [(''A'', say ''a''), (''B'', say ''b''), (''C'', say ''c'')]
                extras_configuration False project_fs) =
     [Print ''CLEANUP TASK: A'', Print ''a'', Print ''CLEANUP TASK: B'',
      Print ''b'', Print ''CLEANUP TASK: C'', Print ''c'',
      Print ''REMOVE: a.log'', Remove ''a.log'' None, Print ''REMOVE: y.bak2'',
      Remove ''y.bak2'' None]"
proof -
  have a: "then_do
       (then_do
          (then_do (execute_cleanup_tasks extras_configuration [(''A'', say ''a'')] False project_fs)
             (\<lambda>fs'. (fs', [Print (''CLEANUP TASK: '' @ ''B'')], None)))
          (say ''b'' extras_configuration False))
       (execute_cleanup_tasks extras_configuration [(''C'', say ''c'')] False) =
     (project_fs,
      [Print ''CLEANUP TASK: A'', Print ''a'', Print ''CLEANUP TASK: B'',
       Print ''b'', Print ''CLEANUP TASK: C'', Print ''c''],
      None)"
    by (simp add: then_do_def say_def)
  have b: "events_of (clean example_os [(''A'', say ''a''), (''B'', say ''b''), (''C'', say ''c'')]
                extras_configuration False project_fs) =
     [Print ''CLEANUP TASK: A'', Print ''a'', Print ''CLEANUP TASK: B'',
      Print ''b'', Print ''CLEANUP TASK: C'', Print ''c'',
      Print ''REMOVE: a.log'', Remove ''a.log'' None, Print ''REMOVE: y.bak2'',
      Remove ''y.bak2'' None]"
    by code_simp
  from contributors_run_in_registration_order
         [of extras_configuration "[(''A'', say ''a'')]" "''B''" "say ''b''"
            "[(''C'', say ''c'')]" False project_fs example_os
            "[(''A'', say ''a''), (''B'', say ''b''), (''C'', say ''c'')]"]
  show ?thesis
    unfolding a b by simp
qed

subsection \<open>Errors of remove_p are caught\<close>

lemma removed_paths_append: "removed_paths (a @ b) = removed_paths a @ removed_paths b"
  by (induction a rule: removed_paths.induct) simp_all

lemma cleanup_files_body_attempt:
  "removed_paths (events_of (cleanup_files_body os False f st)) =
     (if prefix (python_basedir os) (abspath os f) then [] else [f])"
  by (simp add: cleanup_files_body_def Let_def split: prod.splits option.splits)

lemma cleanup_files_inner_attempts:
  "removed_paths (events_of (cleanup_files_inner os False (gen_of_list candidates) st)) =
     [f \<leftarrow> candidates. \<not> prefix (python_basedir os) (abspath os f)]"
  by (induction candidates arbitrary: st)
     (simp_all add: then_do_events cleanup_files_body_raised removed_paths_append
                    cleanup_files_body_attempt)

lemma failures_append: "failures (a @ b) = failures a @ failures b"
  by (induction a rule: failures.induct) simp_all

lemma error_message_of_not_empty: "error_message_of e \<noteq> []"
  by (simp add: error_message_of_def)

lemma retained_append: "retained (retained m a) b = retained m (a @ b)"
  by (cases a; cases b) (auto simp: retained_def error_message_of_not_empty)

lemma retained_Nil: "retained m [] = m"
  by (simp add: retained_def)

lemma cleanup_files_body_count:
  "fst (snd (state_of (cleanup_files_body os dry_run f st))) =
     fst (snd st) + length (failures (events_of (cleanup_files_body os dry_run f st))) \<and>
   snd (snd (state_of (cleanup_files_body os dry_run f st))) =
     retained (snd (snd st)) (failures (events_of (cleanup_files_body os dry_run f st)))"
  by (auto simp: cleanup_files_body_def Let_def retained_def error_message_of_def
           split: prod.splits option.splits)

lemma cleanup_files_inner_count:
  "fst (snd (state_of (cleanup_files_inner os dry_run g st))) =
     fst (snd st) + length (failures (events_of (cleanup_files_inner os dry_run g st))) \<and>
   snd (snd (state_of (cleanup_files_inner os dry_run g st))) =
     retained (snd (snd st)) (failures (events_of (cleanup_files_inner os dry_run g st)))"
proof (induction g arbitrary: st)
  case Stop
  show ?case by (simp add: retained_Nil)
next
  case (Yield f resume)
  show ?case
    using cleanup_files_body_count [of os dry_run f st]
      Yield.IH [OF rangeI, of "fst (state_of (cleanup_files_body os dry_run f st))"
                  "state_of (cleanup_files_body os dry_run f st)"]
    by (simp add: then_do_state then_do_events cleanup_files_body_raised failures_append
                  retained_append)
qed

lemma cleanup_files_outer_count:
  "fst (snd (state_of (cleanup_files_outer os dry_run current_dir patterns st))) =
     fst (snd st)
       + length (failures (events_of (cleanup_files_outer os dry_run current_dir patterns st))) \<and>
   snd (snd (state_of (cleanup_files_outer os dry_run current_dir patterns st))) =
     retained (snd (snd st))
       (failures (events_of (cleanup_files_outer os dry_run current_dir patterns st)))"
proof (induction patterns arbitrary: st)
  case Nil
  show ?case by (simp add: retained_Nil)
next
  case (Cons p ps)
  show ?case
    using cleanup_files_inner_count [of os dry_run "path_glob os p current_dir (fst st)" st]
      Cons.IH [of "state_of (cleanup_files_inner os dry_run
                               (path_glob os p current_dir (fst st)) st)"]
    by (simp add: then_do_state then_do_events cleanup_files_inner_raised failures_append
                  retained_append)
qed

text \<open>
  Claim C8. \<open>cleanup_files\<close> never raises. When it reaches its last statement,
  \<open>error_count\<close> is the number of calls of \<open>remove_p\<close> that raised and
  \<open>error_message\<close> is the message of the first of them (\<open>None\<close> if there was none).
  When \<open>remove_p\<close> raises \<open>e\<close> for a candidate outside the environment base, the loop
  prints the \<open>REMOVE:\<close> line and then the class name and text of \<open>e\<close> followed by
  \<open>basedir:\<close> and the base, adds one to \<open>error_count\<close>, keeps an \<open>error_message\<close>
  it already has, and goes on with the next candidate. For a generator that yields a fixed
  list of candidates, \<open>remove_p\<close> is called on every candidate outside the environment
  base, in order, whatever failed before.
\<close>

theorem cleanup_files_catches_errors:
  "raised_of (cleanup_files os patterns dry_run workdir fs) = None \<and>
   events_of (cleanup_files os patterns dry_run workdir fs) =
     events_of (cleanup_files_loops os patterns dry_run workdir fs) \<and>
   state_of (cleanup_files_loops os patterns dry_run workdir fs) =
     (state_of (cleanup_files os patterns dry_run workdir fs),
      length (failures (events_of (cleanup_files os patterns dry_run workdir fs))),
      (case failures (events_of (cleanup_files os patterns dry_run workdir fs)) of
         [] \<Rightarrow> None
       | e # errors \<Rightarrow> Some (class_name e @ '': '' @ error_text e))) \<and>
   (\<not> prefix (python_basedir os) (abspath os f) \<and> remove_p os f fs = (fs', Some e) \<longrightarrow>
      cleanup_files_inner os False (Yield f resume) (fs, error_count, error_message) =
        then_do
          ((fs', error_count + 1,
            (if error_message = None \<or> error_message = Some []
             then Some (class_name e @ '': '' @ error_text e) else error_message)),
           [Print (''REMOVE: '' @ f), Remove f (Some e),
            Print (class_name e @ '': '' @ error_text e @ '' basedir: '' @ python_basedir os)],
           None)
          (\<lambda>st'. cleanup_files_inner os False (resume (fst st')) st')) \<and>
   removed_paths (events_of (cleanup_files_inner os False (gen_of_list candidates) st)) =
     [f \<leftarrow> candidates. \<not> prefix (python_basedir os) (abspath os f)]"
proof (intro conjI impI)
  show "removed_paths (events_of (cleanup_files_inner os False (gen_of_list candidates) st)) =
     [f \<leftarrow> candidates. \<not> prefix (python_basedir os) (abspath os f)]"
    by (rule cleanup_files_inner_attempts)
  show "raised_of (cleanup_files os patterns dry_run workdir fs) = None"
    by (rule cleanup_files_proj(3))
  show "events_of (cleanup_files os patterns dry_run workdir fs) =
     events_of (cleanup_files_loops os patterns dry_run workdir fs)"
    by (rule cleanup_files_proj(2))
  show "state_of (cleanup_files_loops os patterns dry_run workdir fs) =
     (state_of (cleanup_files os patterns dry_run workdir fs),
      length (failures (events_of (cleanup_files os patterns dry_run workdir fs))),
      (case failures (events_of (cleanup_files os patterns dry_run workdir fs)) of
         [] \<Rightarrow> None
       | e # errors \<Rightarrow> Some (class_name e @ '': '' @ error_text e)))"
    using cleanup_files_outer_count [of os dry_run workdir patterns "(fs, 0, None)"]
    by (auto simp: cleanup_files_proj cleanup_files_loops_def retained_def error_message_of_def
                   prod_eq_iff split: list.splits)
  assume "\<not> prefix (python_basedir os) (abspath os f) \<and> remove_p os f fs = (fs', Some e)"
  then show "cleanup_files_inner os False (Yield f resume) (fs, error_count, error_message) =
        then_do
          ((fs', error_count + 1,
            (if error_message = None \<or> error_message = Some []
             then Some (class_name e @ '': '' @ error_text e) else error_message)),
           [Print (''REMOVE: '' @ f), Remove f (Some e),
            Print (class_name e @ '': '' @ error_text e @ '' basedir: '' @ python_basedir os)],
           None)
          (\<lambda>st'. cleanup_files_inner os False (resume (fst st')) st')"
    by (simp add: cleanup_files_body_def Let_def)
qed

theorem cleanup_files_catches_errors_witness:
  "(\<not> prefix (python_basedir example_os) (abspath example_os ''d.tmp'') \<and>
    remove_p example_os ''d.tmp'' example_fs =
      (example_fs,
       Some (OS_Error ''IsADirectoryError''
               (''[Errno 21] Is a directory: '' @ [CHR 0x27] @ ''d.tmp'' @ [CHR 0x27])))) \<and>
   cleanup_files_inner example_os False (Yield ''d.tmp'' (\<lambda>fs. gen_of_list [''a.log'']))
       (example_fs, 0, None) =
     (([entry \<leftarrow> example_fs. fst entry \<noteq> ''a.log''], 1,
       Some (''IsADirectoryError: [Errno 21] Is a directory: '' @ [CHR 0x27] @ ''d.tmp''
               @ [CHR 0x27])),
      [Print ''REMOVE: d.tmp'',
       Remove ''d.tmp''
         (Some (OS_Error ''IsADirectoryError''
                  (''[Errno 21] Is a directory: '' @ [CHR 0x27] @ ''d.tmp'' @ [CHR 0x27]))),
       Print (''IsADirectoryError: [Errno 21] Is a directory: '' @ [CHR 0x27] @ ''d.tmp''
                @ [CHR 0x27] @ '' basedir: /home/u/proj/venv''),
       Print ''REMOVE: a.log'', Remove ''a.log'' None],
      None) \<and>
   raised_of (cleanup_files example_os [''*.tmp'', ''tmp'', ''*.log''] False ''.'' example_fs)
     = None \<and>
   fst (snd (state_of (cleanup_files_loops example_os [''*.tmp'', ''tmp'', ''*.log''] False ''.''
                         example_fs))) = 2 \<and>
   snd (snd (state_of (cleanup_files_loops example_os [''*.tmp'', ''tmp'', ''*.log''] False ''.''
                         example_fs))) =
     Some (''IsADirectoryError: [Errno 21] Is a directory: '' @ [CHR 0x27] @ ''d.tmp''
             @ [CHR 0x27]) \<and>
   removed_paths (events_of (cleanup_files_inner example_os False
                               (gen_of_list [''d.tmp'', ''venv/lib/a'', ''a.log''])
                               (example_fs, 0, None))) =
     [''d.tmp'', ''a.log'']"
proof -
  let ?e = "OS_Error ''IsADirectoryError''
              (''[Errno 21] Is a directory: '' @ [CHR 0x27] @ ''d.tmp'' @ [CHR 0x27])"
  let ?patterns = "[''*.tmp'', ''tmp'', ''*.log'']"
  have h: "\<not> prefix (python_basedir example_os) (abspath example_os ''d.tmp'') \<and>
    remove_p example_os ''d.tmp'' example_fs = (example_fs, Some ?e)"
    by code_simp
  note t = cleanup_files_catches_errors
             [of example_os ?patterns False "''.''" example_fs "''d.tmp''" example_fs ?e
                "\<lambda>fs. gen_of_list [''a.log'']" 0 None "[''d.tmp'', ''venv/lib/a'', ''a.log'']"
                "(example_fs, 0, None)"]
  have t1: "raised_of (cleanup_files example_os ?patterns False ''.'' example_fs) = None"
    by (rule t [THEN conjunct1])
  have t3: "state_of (cleanup_files_loops example_os ?patterns False ''.'' example_fs) =
     (state_of (cleanup_files example_os ?patterns False ''.'' example_fs),
      length (failures (events_of (cleanup_files example_os ?patterns False ''.'' example_fs))),
      (case failures (events_of (cleanup_files example_os ?patterns False ''.'' example_fs)) of
         [] \<Rightarrow> None
       | e # errors \<Rightarrow> Some (class_name e @ '': '' @ error_text e)))"
    by (rule t [THEN conjunct2, THEN conjunct2, THEN conjunct1])
  have d: "failures (events_of (cleanup_files example_os ?patterns False ''.'' example_fs)) =
     [?e, OS_Error ''IsADirectoryError''
            (''[Errno 21] Is a directory: '' @ [CHR 0x27] @ ''tmp'' @ [CHR 0x27])]"
    by code_simp
  have c3: "fst (snd (state_of (cleanup_files_loops example_os ?patterns False ''.''
                         example_fs))) = 2"
    "snd (snd (state_of (cleanup_files_loops example_os ?patterns False ''.''
                         example_fs))) =
     Some (''IsADirectoryError: [Errno 21] Is a directory: '' @ [CHR 0x27] @ ''d.tmp''
             @ [CHR 0x27])"
    unfolding t3 d by simp_all
  have t4: "cleanup_files_inner example_os False (Yield ''d.tmp'' (\<lambda>fs. gen_of_list [''a.log'']))
       (example_fs, 0, None) =
     then_do
       ((example_fs, 0 + 1,
         (if (None::string option) = None \<or> (None::string option) = Some []
          then Some (class_name ?e @ '': '' @ error_text ?e) else None)),
        [Print (''REMOVE: '' @ ''d.tmp''), Remove ''d.tmp'' (Some ?e),
         Print (class_name ?e @ '': '' @ error_text ?e @ '' basedir: ''
                  @ python_basedir example_os)],
        None)
       (\<lambda>st'. cleanup_files_inner example_os False (gen_of_list [''a.log'']) st')"
    by (rule t [THEN conjunct2, THEN conjunct2, THEN conjunct2, THEN conjunct1, THEN mp, OF h])
  have c4: "then_do
       ((example_fs, 0 + 1,
         (if (None::string option) = None \<or> (None::string option) = Some []
          then Some (class_name ?e @ '': '' @ error_text ?e) else None)),
        [Print (''REMOVE: '' @ ''d.tmp''), Remove ''d.tmp'' (Some ?e),
         Print (class_name ?e @ '': '' @ error_text ?e @ '' basedir: ''
                  @ python_basedir example_os)],
        None)
       (\<lambda>st'. cleanup_files_inner example_os False (gen_of_list [''a.log'']) st') =
     (([entry \<leftarrow> example_fs. fst entry \<noteq> ''a.log''], 1,
       Some (''IsADirectoryError: [Errno 21] Is a directory: '' @ [CHR 0x27] @ ''d.tmp''
               @ [CHR 0x27])),
      [Print ''REMOVE: d.tmp'', Remove ''d.tmp'' (Some ?e),
       Print (''IsADirectoryError: [Errno 21] Is a directory: '' @ [CHR 0x27] @ ''d.tmp''
                @ [CHR 0x27] @ '' basedir: /home/u/proj/venv''),
       Print ''REMOVE: a.log'', Remove ''a.log'' None],
      None)"
    by code_simp
  have t5: "removed_paths (events_of (cleanup_files_inner example_os False
                               (gen_of_list [''d.tmp'', ''venv/lib/a'', ''a.log''])
                               (example_fs, 0, None))) =
     [f \<leftarrow> [''d.tmp'', ''venv/lib/a'', ''a.log''].
        \<not> prefix (python_basedir example_os) (abspath example_os f)]"
    by (rule t [THEN conjunct2, THEN conjunct2, THEN conjunct2, THEN conjunct2])
  have c5: "[f \<leftarrow> [''d.tmp'', ''venv/lib/a'', ''a.log''].
             \<not> prefix (python_basedir example_os) (abspath example_os f)] = [''d.tmp'', ''a.log'']"
    by code_simp
  show ?thesis
    by (intro conjI h [THEN conjunct1] h [THEN conjunct2] t1 c3 trans [OF t4 c4]
          trans [OF t5 c5])
qed

subsection \<open>The prefix tests compare strings\<close>

text \<open>
  Claim C10. If the absolute form of a candidate is the environment base followed by any
  string at all (a sibling \<open><base>-other\<close> included), both deleters skip the candidate:
  neither the loop body nor a whole call removes it. If the path of the interpreter is
  the absolute form of a directory followed by any string at all, the directory deleter
  answers that directory with the \<open>contains current python executable\<close> line and never
  removes it.
\<close>

theorem prefix_tests_ignore_path_boundaries:
  "(abspath os P = python_basedir os @ tail \<longrightarrow>
      fst (state_of (cleanup_dirs_body os dry_run P (fs, warn2_counter))) = fs \<and>
      list_all is_print (events_of (cleanup_dirs_body os dry_run P (fs, warn2_counter))) \<and>
      raised_of (cleanup_dirs_body os dry_run P (fs, warn2_counter)) = None \<and>
      cleanup_files_body os dry_run P st = (st, [], None) \<and>
      (\<forall>x. Rmtree P x \<notin> set (events_of (cleanup_dirs os patterns dry_run workdir fs))) \<and>
      (\<forall>x. Remove P x \<notin> set (events_of (cleanup_files os patterns dry_run workdir fs)))) \<and>
   (sys_executable os = abspath os D @ rest \<longrightarrow>
      cleanup_dirs_body os dry_run D (fs, warn2_counter) =
        ((fs, warn2_counter),
         [Print (''SKIP-SUICIDE: '' @ [CHR 0x27] @ D @ [CHR 0x27]
                   @ '' contains current python executable'')],
         None) \<and>
      (\<forall>x. Rmtree D x \<notin> set (events_of (cleanup_dirs os patterns dry_run workdir fs))))"
proof (intro conjI impI allI)
  assume a: "abspath os P = python_basedir os @ tail"
  then have p: "prefix (python_basedir os) (abspath os P)"
    by simp
  show "fst (state_of (cleanup_dirs_body os dry_run P (fs, warn2_counter))) = fs"
    using p by (simp add: cleanup_dirs_body_def Let_def)
  show "list_all is_print (events_of (cleanup_dirs_body os dry_run P (fs, warn2_counter)))"
    using p by (simp add: cleanup_dirs_body_def Let_def is_print_def)
  show "raised_of (cleanup_dirs_body os dry_run P (fs, warn2_counter)) = None"
    using p by (simp add: cleanup_dirs_body_def Let_def)
  show "cleanup_files_body os dry_run P st = (st, [], None)"
    using p by (simp add: cleanup_files_body_def split: prod.splits)
  show "Rmtree P x \<notin> set (events_of (cleanup_dirs os patterns dry_run workdir fs))" for x
    using cleanup_dirs_ok [of os dry_run patterns workdir fs] p
    by (auto simp: list_all_iff dirs_event_ok_def)
  show "Remove P x \<notin> set (events_of (cleanup_files os patterns dry_run workdir fs))" for x
    using cleanup_files_ok [of os dry_run patterns workdir fs] p
    by (auto simp: list_all_iff files_event_ok_def)
next
  assume "sys_executable os = abspath os D @ rest"
  then have p: "prefix (abspath os D) (sys_executable os)"
    by simp
  show "cleanup_dirs_body os dry_run D (fs, warn2_counter) =
        ((fs, warn2_counter),
         [Print (''SKIP-SUICIDE: '' @ [CHR 0x27] @ D @ [CHR 0x27]
                   @ '' contains current python executable'')],
         None)"
    using p by (simp add: cleanup_dirs_body_def)
  show "Rmtree D x \<notin> set (events_of (cleanup_dirs os patterns dry_run workdir fs))" for x
    using cleanup_dirs_ok [of os dry_run patterns workdir fs] p
    by (auto simp: list_all_iff dirs_event_ok_def)
qed

theorem prefix_tests_ignore_path_boundaries_witness:
  "abspath example_os ''venv-other'' = python_basedir example_os @ ''-other'' \<and>
   sys_executable example_os = abspath example_os ''ve'' @ ''nv/bin/python'' \<and>
   cleanup_dirs_body example_os False ''venv-other'' (example_fs, 0) =
     ((example_fs, 1), [Print (''SKIP-SUICIDE: '' @ [CHR 0x27] @ ''venv-other'' @ [CHR 0x27])],
      None) \<and>
   cleanup_files_body example_os False ''venv-other'' (example_fs, 0, None) =
     ((example_fs, 0, None), [], None) \<and>
   cleanup_dirs_body example_os False ''ve'' (example_fs, 0) =
     ((example_fs, 0),
      [Print (''SKIP-SUICIDE: '' @ [CHR 0x27] @ ''ve'' @ [CHR 0x27]
                @ '' contains current python executable'')],
      None) \<and>
   (\<forall>x. Rmtree ''venv-other'' x \<notin>
      set (events_of (cleanup_dirs example_os [''ve*''] False ''.'' example_fs))) \<and>
   (\<forall>x. Rmtree ''ve'' x \<notin>
      set (events_of (cleanup_dirs example_os [''ve*''] False ''.'' example_fs)))"
proof -
  have h1: "abspath example_os ''venv-other'' = python_basedir example_os @ ''-other''"
    by code_simp
  have h2: "sys_executable example_os = abspath example_os ''ve'' @ ''nv/bin/python''"
    by code_simp
  have b: "cleanup_dirs_body example_os False ''venv-other'' (example_fs, 0) =
     ((example_fs, 1), [Print (''SKIP-SUICIDE: '' @ [CHR 0x27] @ ''venv-other'' @ [CHR 0x27])],
      None)"
    by code_simp
  from h1 h2 prefix_tests_ignore_path_boundaries
               [of example_os "''venv-other''" "''-other''" False example_fs 0
                  "(example_fs, 0, None)" "[''ve*'']" "''.''" "''ve''" "''nv/bin/python''"]
  show ?thesis
    by (simp add: b)
qed

end
